theory Spec2Isabelle
  imports Main "HOL-Library.Word"
begin

section \<open>Data model of \<open>solver.go\<close>\<close>

type_synonym uint64 = "64 word"

text \<open>
  \<open>type SolverSpec struct { Name; Attrs; Capabilities }\<close>. The type \<open>Capabilities\<close> is
  declared outside \<open>solver.go\<close> and stays a type parameter.
\<close>

record 'c SolverSpec =
  Name :: string
  Attrs :: "string \<rightharpoonup> string"
  Capabilities :: 'c

text \<open>\<open>NewSolverSpec\<close>; the constant \<open>AllCapabilities\<close> is declared elsewhere and is passed in.\<close>

definition NewSolverSpec :: "'c \<Rightarrow> string \<Rightarrow> 'c SolverSpec" where
  "NewSolverSpec AllCapabilities name =
     \<lparr>Name = name, Attrs = Map.empty, Capabilities = AllCapabilities\<rparr>"

text \<open>
  \<open>TrialIdGenerator\<close> is built in \<open>handleAskCall\<close> as \<open>TrialIdGenerator{message.NextTrialId}\<close>
  and read back as \<open>idg.NextId\<close>: one field of type \<open>uint64\<close>.
\<close>

record TrialIdGenerator =
  NextId :: uint64

text \<open>
  Modelled from the spec: the method \<open>Generate\<close> of \<open>TrialIdGenerator\<close> is not part of
  \<open>solver.go\<close>. "Each request returns the current counter value and advances the counter by
  one." The counter is a \<open>uint64\<close>, so the increment wraps.
\<close>

definition Generate :: "TrialIdGenerator \<Rightarrow> uint64 \<times> TrialIdGenerator" where
  "Generate idg = (NextId idg, idg\<lparr>NextId := NextId idg + 1\<rparr>)"



text \<open>
  Modelled from the spec: \<open>NextTrial\<close> is declared outside \<open>solver.go\<close>; it is "a newly
  proposed trial (parameters + assigned id)". The parameters are opaque to the runner.
\<close>

record 'a NextTrial =
  TrialId :: uint64
  Params :: 'a

text \<open>
  \<open>message["type"]\<close> is an \<open>interface{}\<close> taken from a \<open>map[string]interface{}\<close>: \<open>nil\<close> when
  the key is absent or null, a string, or some other decoded value (never equal to a string).
\<close>

datatype 'v jvalue = JNil | JString string | JOther 'v

definition map_index :: "(string \<rightharpoonup> 'v jvalue) \<Rightarrow> string \<Rightarrow> 'v jvalue" where
  "map_index m k = (case m k of None \<Rightarrow> JNil | Some v \<Rightarrow> v)"

text \<open>The anonymous structs the four handlers decode their input into.\<close>

datatype 'et TellCall = TellCall (tell_SolverId: uint64) (tell_Trial: 'et)

datatype AskCall = AskCall (ask_SolverId: uint64) (ask_NextTrialId: uint64)

datatype DropSolverCast = DropSolverCast (drop_SolverId: uint64)

datatype 'p CreateSolverCast =
  CreateSolverCast (create_SolverId: uint64) (create_RandomSeed: uint64) (create_Problem: 'p)

text \<open>The three maps handed to \<open>sendMessage\<close>, named by their \<open>"type"\<close> entry.\<close>

datatype ('c, 'a) message =
    SOLVER_SPEC_CAST "'c SolverSpec option"
  | ASK_REPLY "'a NextTrial" uint64
  | TELL_REPLY

text \<open>
  Errors: those handed up from the JSON library, the line reader, the factory or a solver
  (\<open>External\<close>), and the one \<open>runOnce\<close> makes itself with \<open>fmt.Errorf\<close>.
\<close>

datatype ('e, 'v) error = External 'e | UnknownMessageType "'v jvalue"

text \<open>
  A Go call either returns or panics. The only panic of \<open>solver.go\<close> is the method call on a
  nil \<open>Solver\<close> interface value.
\<close>

datatype 'r go = Returns 'r | Panics

text \<open>The conversion \<open>int64(x)\<close> of a \<open>uint64\<close>: the same 64 bits read as two's complement.\<close>

definition int64 :: "uint64 \<Rightarrow> int" where
  "int64 x = sint x"

section \<open>What the runner is given\<close>

text \<open>
  The factory and the solvers are interface values whose code lies outside the runner; so do
  \<open>encoding/json\<close>'s \<open>Unmarshal\<close> (one function per target type) and \<open>Marshal\<close>. They are the
  fields of an environment. A value of type \<open>'h\<close> is a non-nil \<open>Solver\<close>; \<open>None\<close> in
  \<open>'h option\<close> is the nil interface value. Everything these objects can mutate is the
  \<open>world\<close> of type \<open>'w\<close>, threaded through each call. Each of these calls is taken to
  return: a factory or solver that panics or never returns is outside the model.
\<close>

record ('h, 'w, 'e, 'p, 'a, 'et, 'v, 'c) env =
  Specification :: "'w \<Rightarrow> ('e + 'c SolverSpec option) \<times> 'w"
  CreateSolver :: "int \<Rightarrow> 'p \<Rightarrow> 'w \<Rightarrow> ('e + 'h option) \<times> 'w"
  Ask :: "'h \<Rightarrow> TrialIdGenerator \<Rightarrow> 'w \<Rightarrow> ('e + 'a NextTrial) \<times> TrialIdGenerator \<times> 'w"
  Tell :: "'h \<Rightarrow> 'et \<Rightarrow> 'w \<Rightarrow> 'e option \<times> 'w"
  UnmarshalMap :: "string \<Rightarrow> 'e + (string \<rightharpoonup> 'v jvalue)"
  UnmarshalTellCall :: "string \<Rightarrow> 'e + 'et TellCall"
  UnmarshalAskCall :: "string \<Rightarrow> 'e + AskCall"
  UnmarshalDropSolverCast :: "string \<Rightarrow> 'e + DropSolverCast"
  UnmarshalCreateSolverCast :: "string \<Rightarrow> 'e + 'p CreateSolverCast"
  Marshal :: "('c, 'a) message \<Rightarrow> 'e + string"

section \<open>State\<close>

text \<open>
  What a run has done to the outside, in order: each call of \<open>readLine\<close> with its outcome and
  each line printed by \<open>sendMessage\<close> (the message and its encoding).
\<close>

datatype 'e line = Line string | EOF | ReadFailed 'e

datatype ('e, 'c, 'a) event = Read "'e line" | Output "('c, 'a) message" string

text \<open>
  \<open>solvers\<close> is the field \<open>r.solvers\<close>; \<open>stdin\<close> is what standard input still holds (one entry
  per future call of \<open>readLine\<close>, the empty list being end of stream); \<open>io\<close> is the history.
\<close>

record ('h, 'w, 'e, 'c, 'a) state =
  solvers :: "uint64 \<rightharpoonup> 'h option"
  world :: 'w
  stdin :: "('e + string) list"
  io :: "('e, 'c, 'a) event list"

text \<open>The process before \<open>Run\<close>: \<open>NewSolverRunner\<close> leaves \<open>solvers\<close> nil, nothing read or written.\<close>

definition NewSolverRunner :: "'w \<Rightarrow> ('e + string) list \<Rightarrow> ('h, 'w, 'e, 'c, 'a) state" where
  "NewSolverRunner w input = \<lparr>solvers = Map.empty, world = w, stdin = input, io = []\<rparr>"

text \<open>The lines printed so far, and the events that print the handshake.\<close>

fun is_handshake :: "('e, 'c, 'a) event \<Rightarrow> bool" where
  "is_handshake (Output (SOLVER_SPEC_CAST spec) b) = True"
| "is_handshake ev = False"

fun is_reply :: "('e, 'c, 'a) event \<Rightarrow> bool" where
  "is_reply (Output (ASK_REPLY trial n) b) = True"
| "is_reply (Output TELL_REPLY b) = True"
| "is_reply ev = False"

fun written :: "('e, 'c, 'a) event list \<Rightarrow> string list" where
  "written [] = []"
| "written (Read r # evs) = written evs"
| "written (Output m b # evs) = b # written evs"

text \<open>\<open>r.solvers[id]\<close>: indexing a Go map yields the zero value, the nil \<open>Solver\<close>, at a missing key.\<close>

definition solvers_index :: "(uint64 \<rightharpoonup> 'h option) \<Rightarrow> uint64 \<Rightarrow> 'h option" where
  "solvers_index m k = (case m k of None \<Rightarrow> None | Some s \<Rightarrow> s)"

section \<open>The runner\<close>

text \<open>
  Modelled from the spec: \<open>readLine\<close> is not part of \<open>solver.go\<close>. "\<open>readLine()\<close> gives bytes,
  end-of-stream or an error"; reads are sequential, one complete line per call.
\<close>

definition readLine :: "('h, 'w, 'e, 'c, 'a) state \<Rightarrow> 'e line \<times> ('h, 'w, 'e, 'c, 'a) state" where
  "readLine st =
     (case stdin st of
        [] \<Rightarrow> (EOF, st\<lparr>io := io st @ [Read EOF]\<rparr>)
      | Inl err # rest \<Rightarrow> (ReadFailed err, st\<lparr>stdin := rest, io := io st @ [Read (ReadFailed err)]\<rparr>)
      | Inr l # rest \<Rightarrow> (Line l, st\<lparr>stdin := rest, io := io st @ [Read (Line l)]\<rparr>))"

definition sendMessage ::
  "('h, 'w, 'e, 'p, 'a, 'et, 'v, 'c) env \<Rightarrow> ('c, 'a) message \<Rightarrow> ('h, 'w, 'e, 'c, 'a) state
     \<Rightarrow> ('e, 'v) error option \<times> ('h, 'w, 'e, 'c, 'a) state" where
  "sendMessage env message st =
     (case Marshal env message of
        Inl err \<Rightarrow> (Some (External err), st)
      | Inr bytes \<Rightarrow> (None, st\<lparr>io := io st @ [Output message bytes]\<rparr>))"

definition castSolverSpec ::
  "('h, 'w, 'e, 'p, 'a, 'et, 'v, 'c) env \<Rightarrow> ('h, 'w, 'e, 'c, 'a) state
     \<Rightarrow> ('e, 'v) error option \<times> ('h, 'w, 'e, 'c, 'a) state" where
  "castSolverSpec env st =
     (case Specification env (world st) of
        (Inl err, w) \<Rightarrow> (Some (External err), st\<lparr>world := w\<rparr>)
      | (Inr spec, w) \<Rightarrow> sendMessage env (SOLVER_SPEC_CAST spec) (st\<lparr>world := w\<rparr>))"

definition handleCreateSolverCast ::
  "('h, 'w, 'e, 'p, 'a, 'et, 'v, 'c) env \<Rightarrow> string \<Rightarrow> ('h, 'w, 'e, 'c, 'a) state
     \<Rightarrow> ('e, 'v) error option go \<times> ('h, 'w, 'e, 'c, 'a) state" where
  "handleCreateSolverCast env input st =
     (case UnmarshalCreateSolverCast env input of
        Inl err \<Rightarrow> (Returns (Some (External err)), st)
      | Inr message \<Rightarrow>
          (case CreateSolver env (int64 (create_RandomSeed message)) (create_Problem message) (world st) of
             (Inl err, w) \<Rightarrow> (Returns (Some (External err)), st\<lparr>world := w\<rparr>)
           | (Inr solver, w) \<Rightarrow>
               (Returns None,
                st\<lparr>world := w, solvers := (solvers st)(create_SolverId message \<mapsto> solver)\<rparr>)))"

definition handleDropSolverCast ::
  "('h, 'w, 'e, 'p, 'a, 'et, 'v, 'c) env \<Rightarrow> string \<Rightarrow> ('h, 'w, 'e, 'c, 'a) state
     \<Rightarrow> ('e, 'v) error option go \<times> ('h, 'w, 'e, 'c, 'a) state" where
  "handleDropSolverCast env input st =
     (case UnmarshalDropSolverCast env input of
        Inl err \<Rightarrow> (Returns (Some (External err)), st)
      | Inr message \<Rightarrow>
          (Returns None, st\<lparr>solvers := (solvers st)(drop_SolverId message := None)\<rparr>))"

definition handleAskCall ::
  "('h, 'w, 'e, 'p, 'a, 'et, 'v, 'c) env \<Rightarrow> string \<Rightarrow> ('h, 'w, 'e, 'c, 'a) state
     \<Rightarrow> ('e, 'v) error option go \<times> ('h, 'w, 'e, 'c, 'a) state" where
  "handleAskCall env input st =
     (case UnmarshalAskCall env input of
        Inl err \<Rightarrow> (Returns (Some (External err)), st)
      | Inr message \<Rightarrow>
          (let idg = \<lparr>NextId = ask_NextTrialId message\<rparr> in
           case solvers_index (solvers st) (ask_SolverId message) of
             None \<Rightarrow> (Panics, st)
           | Some solver \<Rightarrow>
               (case Ask env solver idg (world st) of
                  (Inl err, idg', w) \<Rightarrow> (Returns (Some (External err)), st\<lparr>world := w\<rparr>)
                | (Inr trial, idg', w) \<Rightarrow>
                    (case sendMessage env (ASK_REPLY trial (NextId idg')) (st\<lparr>world := w\<rparr>) of
                       (err, st') \<Rightarrow> (Returns err, st')))))"

definition handleTellCall ::
  "('h, 'w, 'e, 'p, 'a, 'et, 'v, 'c) env \<Rightarrow> string \<Rightarrow> ('h, 'w, 'e, 'c, 'a) state
     \<Rightarrow> ('e, 'v) error option go \<times> ('h, 'w, 'e, 'c, 'a) state" where
  "handleTellCall env input st =
     (case UnmarshalTellCall env input of
        Inl err \<Rightarrow> (Returns (Some (External err)), st)
      | Inr message \<Rightarrow>
          (case solvers_index (solvers st) (tell_SolverId message) of
             None \<Rightarrow> (Panics, st)
           | Some solver \<Rightarrow>
               (case Tell env solver (tell_Trial message) (world st) of
                  (Some err, w) \<Rightarrow> (Returns (Some (External err)), st\<lparr>world := w\<rparr>)
                | (None, w) \<Rightarrow>
                    (case sendMessage env TELL_REPLY (st\<lparr>world := w\<rparr>) of
                       (err, st') \<Rightarrow> (Returns err, st')))))"

text \<open>\<open>return true, err\<close> after a handler: the handler's error beside \<open>true\<close>, or its panic.\<close>

definition return_true ::
  "('e, 'v) error option go \<times> 's \<Rightarrow> (bool \<times> ('e, 'v) error option) go \<times> 's" where
  "return_true r =
     (case r of (Returns err, st) \<Rightarrow> (Returns (True, err), st) | (Panics, st) \<Rightarrow> (Panics, st))"

definition runOnce ::
  "('h, 'w, 'e, 'p, 'a, 'et, 'v, 'c) env \<Rightarrow> ('h, 'w, 'e, 'c, 'a) state
     \<Rightarrow> (bool \<times> ('e, 'v) error option) go \<times> ('h, 'w, 'e, 'c, 'a) state" where
  "runOnce env st =
     (case readLine st of
        (EOF, st1) \<Rightarrow> (Returns (False, None), st1)
      | (ReadFailed err, st1) \<Rightarrow> (Returns (False, Some (External err)), st1)
      | (Line line, st1) \<Rightarrow>
          (case UnmarshalMap env line of
             Inl err \<Rightarrow> (Returns (False, Some (External err)), st1)
           | Inr message \<Rightarrow>
               (let ty = map_index message ''type'' in
                if ty = JString ''CREATE_SOLVER_CAST'' then return_true (handleCreateSolverCast env line st1)
                else if ty = JString ''DROP_SOLVER_CAST'' then return_true (handleDropSolverCast env line st1)
                else if ty = JString ''ASK_CALL'' then return_true (handleAskCall env line st1)
                else if ty = JString ''TELL_CALL'' then return_true (handleTellCall env line st1)
                else (Returns (False, Some (UnknownMessageType ty)), st1))))"

text \<open>
  The loop of \<open>Run\<close> ends because every round that continues has taken a line from standard
  input; the handlers leave \<open>stdin\<close> alone.
\<close>

lemma sendMessage_stdin: "sendMessage env m st = (r, st') \<Longrightarrow> stdin st' = stdin st"
  by (auto simp: sendMessage_def split: sum.splits)

lemma handleCreateSolverCast_stdin:
  "handleCreateSolverCast env l st = (r, st') \<Longrightarrow> stdin st' = stdin st"
  by (auto simp: handleCreateSolverCast_def split: sum.splits prod.splits)

lemma handleDropSolverCast_stdin:
  "handleDropSolverCast env l st = (r, st') \<Longrightarrow> stdin st' = stdin st"
  by (auto simp: handleDropSolverCast_def split: sum.splits)

lemma handleAskCall_stdin:
  "handleAskCall env l st = (r, st') \<Longrightarrow> stdin st' = stdin st"
  by (auto simp: handleAskCall_def Let_def split: sum.splits prod.splits option.splits
        dest!: sendMessage_stdin)

lemma handleTellCall_stdin:
  "handleTellCall env l st = (r, st') \<Longrightarrow> stdin st' = stdin st"
  by (auto simp: handleTellCall_def split: sum.splits prod.splits option.splits
        dest!: sendMessage_stdin)

lemma return_true_Returns:
  "return_true (r, st) = (Returns (b, err), st') \<longleftrightarrow> b \<and> r = Returns err \<and> st' = st"
  by (auto simp: return_true_def split: go.splits)

lemma return_true_Panics:
  "return_true (r, st) = (Panics, st') \<longleftrightarrow> r = Panics \<and> st' = st"
  by (auto simp: return_true_def split: go.splits)

lemma readLine_Line:
  "readLine st = (Line l, st1) \<longleftrightarrow>
     (\<exists>rest. stdin st = Inr l # rest \<and> st1 = st\<lparr>stdin := rest, io := io st @ [Read (Line l)]\<rparr>)"
  by (auto simp: readLine_def split: list.splits sum.splits)

lemma runOnce_continue:
  assumes "runOnce env st = (Returns (True, err), st')"
  shows "length (stdin st') < length (stdin st)"
proof -
  obtain r st1 where rl: "readLine st = (r, st1)" by (cases "readLine st")
  show ?thesis
  proof (cases r)
    case (Line l)
    with rl obtain rest where st: "stdin st = Inr l # rest" "stdin st1 = rest"
      by (auto simp: readLine_Line)
    have "stdin st' = stdin st1"
      using assms rl Line
      by (cases "handleCreateSolverCast env l st1"; cases "handleDropSolverCast env l st1";
          cases "handleAskCall env l st1"; cases "handleTellCall env l st1")
         (auto simp: runOnce_def Let_def return_true_Returns split: sum.splits if_splits
           dest: handleCreateSolverCast_stdin handleDropSolverCast_stdin
                 handleAskCall_stdin handleTellCall_stdin)
    with st show ?thesis by simp
  next
    case EOF
    with assms rl show ?thesis by (simp add: runOnce_def)
  next
    case (ReadFailed e)
    with assms rl show ?thesis by (simp add: runOnce_def)
  qed
qed

text \<open>The \<open>for\<close> loop of \<open>Run\<close>.\<close>

function loop ::
  "('h, 'w, 'e, 'p, 'a, 'et, 'v, 'c) env \<Rightarrow> ('h, 'w, 'e, 'c, 'a) state
     \<Rightarrow> ('e, 'v) error option go \<times> ('h, 'w, 'e, 'c, 'a) state" where
  "loop env st =
     (case runOnce env st of
        (Panics, st') \<Rightarrow> (Panics, st')
      | (Returns (do_continue, Some err), st') \<Rightarrow> (Returns (Some err), st')
      | (Returns (do_continue, None), st') \<Rightarrow>
          (if \<not> do_continue then (Returns None, st') else loop env st'))"
  by pat_completeness auto
termination
  apply (relation "measure (\<lambda>(env, st). length (stdin st))")
   apply simp
  apply (auto dest: runOnce_continue [OF sym])
  done

declare loop.simps [simp del]

definition Run ::
  "('h, 'w, 'e, 'p, 'a, 'et, 'v, 'c) env \<Rightarrow> ('h, 'w, 'e, 'c, 'a) state
     \<Rightarrow> ('e, 'v) error option go \<times> ('h, 'w, 'e, 'c, 'a) state" where
  "Run env st =
     (case castSolverSpec env (st\<lparr>solvers := Map.empty\<rparr>) of
        (Some err, st') \<Rightarrow> (Returns (Some err), st')
      | (None, st') \<Rightarrow> loop env st')"

section \<open>A small factory, two solvers and a line codec to run the model on\<close>

text \<open>The decoded form of the lines used below: discriminant and fields.\<close>

datatype wire =
    WCreate uint64 uint64 "nat option"
  | WDrop uint64
  | WAsk uint64 uint64
  | WTell uint64 bool
  | WOther string

fun parse :: "string \<Rightarrow> wire option" where
  "parse l =
     (if l = ''create-1'' then Some (WCreate 1 42 (Some 1))
      else if l = ''create-1-again'' then Some (WCreate 1 43 (Some 2))
      else if l = ''create-2-unsupported'' then Some (WCreate 2 5 None)
      else if l = ''create-3-big-seed'' then Some (WCreate 3 18446744073709551615 (Some 1))
      else if l = ''create-4-empty'' then Some (WCreate 4 9 (Some 0))
      else if l = ''drop-1'' then Some (WDrop 1)
      else if l = ''ask-1'' then Some (WAsk 1 100)
      else if l = ''ask-4'' then Some (WAsk 4 100)
      else if l = ''ask-5'' then Some (WAsk 5 100)
      else if l = ''tell-1'' then Some (WTell 1 True)
      else if l = ''tell-1-rejected'' then Some (WTell 1 False)
      else if l = ''bogus'' then Some (WOther ''BOGUS'')
      else None)"

fun wire_type :: "wire \<Rightarrow> string" where
  "wire_type (WCreate i s p) = ''CREATE_SOLVER_CAST''"
| "wire_type (WDrop i) = ''DROP_SOLVER_CAST''"
| "wire_type (WAsk i n) = ''ASK_CALL''"
| "wire_type (WTell i t) = ''TELL_CALL''"
| "wire_type (WOther t) = t"

definition demo_env :: "(nat, int list, string, nat option, unit, bool, unit, unit) env" where
  "demo_env =
     \<lparr>Specification = (\<lambda>w. (Inr (Some (NewSolverSpec () ''demo'')), w)),
      CreateSolver = (\<lambda>seed problem w.
        case problem of
          None \<Rightarrow> (Inl ''unsupported problem'', w @ [seed])
        | Some kind \<Rightarrow> (Inr (Some kind), w @ [seed])),
      Ask = (\<lambda>solver idg w.
        if solver = 0 then (Inl ''search space exhausted'', idg, w)
        else if solver = 1 then
          (Inr \<lparr>TrialId = fst (Generate idg), Params = ()\<rparr>, snd (Generate idg), w)
        else (Inr \<lparr>TrialId = 7, Params = ()\<rparr>, snd (Generate idg), w)),
      Tell = (\<lambda>solver trial w. if trial then (None, w) else (Some ''trial rejected'', w)),
      UnmarshalMap = (\<lambda>l.
        case parse l of
          None \<Rightarrow> Inl ''invalid character''
        | Some m \<Rightarrow> Inr [''type'' \<mapsto> JString (wire_type m)]),
      UnmarshalTellCall = (\<lambda>l.
        case parse l of Some (WTell i t) \<Rightarrow> Inr (TellCall i t) | _ \<Rightarrow> Inl ''cannot unmarshal''),
      UnmarshalAskCall = (\<lambda>l.
        case parse l of Some (WAsk i n) \<Rightarrow> Inr (AskCall i n) | _ \<Rightarrow> Inl ''cannot unmarshal''),
      UnmarshalDropSolverCast = (\<lambda>l.
        case parse l of Some (WDrop i) \<Rightarrow> Inr (DropSolverCast i) | _ \<Rightarrow> Inl ''cannot unmarshal''),
      UnmarshalCreateSolverCast = (\<lambda>l.
        case parse l of
          Some (WCreate i s p) \<Rightarrow> Inr (CreateSolverCast i s p)
        | _ \<Rightarrow> Inl ''cannot unmarshal''),
      Marshal = (\<lambda>m.
        case m of
          SOLVER_SPEC_CAST spec \<Rightarrow> Inr ''SOLVER_SPEC_CAST''
        | ASK_REPLY trial n \<Rightarrow> Inr ''ASK_REPLY''
        | TELL_REPLY \<Rightarrow> Inr ''TELL_REPLY'')\<rparr>"

definition demo_run ::
  "string list \<Rightarrow> (string, unit) error option go \<times> (nat, int list, string, unit, unit) state" where
  "demo_run ls = Run demo_env (NewSolverRunner [] (map Inr ls))"

text \<open>
  A runner in mid-run: solver 1 takes its trial id from the generator, solver 4 has nothing
  left to propose, solver 5 makes its trial id up.
\<close>

definition demo_state :: "(nat, int list, string, unit, unit) state" where
  "demo_state = \<lparr>solvers = [1 \<mapsto> Some 1, 4 \<mapsto> Some 0, 5 \<mapsto> Some 2], world = [],
     stdin = [], io = []\<rparr>"

text \<open>The same factory, except that it cannot report a specification.\<close>

definition silent_env :: "(nat, int list, string, nat option, unit, bool, unit, unit) env" where
  "silent_env = demo_env\<lparr>Specification := (\<lambda>w. (Inl ''no specification'', w))\<rparr>"

lemmas demo_simps =
  demo_run_def Run_def NewSolverRunner_def castSolverSpec_def sendMessage_def demo_env_def
  loop.simps runOnce_def readLine_def return_true_def map_index_def solvers_index_def
  handleCreateSolverCast_def handleDropSolverCast_def handleAskCall_def handleTellCall_def
  Generate_def int64_def Let_def

section \<open>What a round and the loop do to the history\<close>

lemma is_reply_cases: "is_reply ev \<Longrightarrow> \<not> is_handshake ev \<and> ev \<noteq> Read x"
  by (cases ev rule: is_reply.cases) auto

lemma handleCreateSolverCast_io:
  "handleCreateSolverCast env l st = (r, st') \<Longrightarrow> io st' = io st"
  by (auto simp: handleCreateSolverCast_def split: sum.splits prod.splits)

lemma handleDropSolverCast_io:
  "handleDropSolverCast env l st = (r, st') \<Longrightarrow> io st' = io st"
  by (auto simp: handleDropSolverCast_def split: sum.splits)

lemma handleAskCall_io:
  "handleAskCall env l st = (r, st') \<Longrightarrow>
     \<exists>outs. io st' = io st @ outs \<and> (\<forall>ev\<in>set outs. is_reply ev)"
  by (auto simp: handleAskCall_def Let_def sendMessage_def
        split: sum.splits prod.splits option.splits)

lemma handleTellCall_io:
  "handleTellCall env l st = (r, st') \<Longrightarrow>
     \<exists>outs. io st' = io st @ outs \<and> (\<forall>ev\<in>set outs. is_reply ev)"
  by (auto simp: handleTellCall_def sendMessage_def
        split: sum.splits prod.splits option.splits)

lemma runOnce_EOF:
  "stdin st = [] \<Longrightarrow> runOnce env st = (Returns (False, None), st\<lparr>io := io st @ [Read EOF]\<rparr>)"
  by (simp add: runOnce_def readLine_def)

lemma runOnce_io:
  assumes "runOnce env st = (r, st')"
  shows "\<exists>x outs. io st' = io st @ Read x # outs \<and> (\<forall>ev\<in>set outs. is_reply ev) \<and>
           (x = EOF \<longrightarrow> outs = []) \<and> (r = Returns (False, None) \<longleftrightarrow> x = EOF)"
proof (cases "stdin st")
  case Nil
  with assms show ?thesis by (auto simp: runOnce_EOF)
next
  case (Cons a rest)
  show ?thesis
  proof (cases a)
    case (Inl e)
    with Cons assms show ?thesis by (auto simp: runOnce_def readLine_def)
  next
    case (Inr l)
    define st1 where "st1 = st\<lparr>stdin := rest, io := io st @ [Read (Line l)]\<rparr>"
    have rl: "readLine st = (Line l, st1)"
      using Cons Inr by (simp add: readLine_def st1_def)
    have io1: "io st1 = io st @ [Read (Line l)]" by (simp add: st1_def)
    have "\<exists>outs. io st' = io st1 @ outs \<and> (\<forall>ev\<in>set outs. is_reply ev) \<and>
            r \<noteq> Returns (False, None)"
      using assms rl
      by (cases "handleCreateSolverCast env l st1"; cases "handleDropSolverCast env l st1";
          cases "handleAskCall env l st1"; cases "handleTellCall env l st1")
         (auto simp: runOnce_def Let_def return_true_def split: sum.splits if_splits go.splits
           dest: handleCreateSolverCast_io handleDropSolverCast_io
           dest!: handleAskCall_io handleTellCall_io)
    then show ?thesis using io1 by auto
  qed
qed

lemma loop_io:
  "loop env st = (r, st') \<Longrightarrow>
     \<exists>evs. io st' = io st @ evs \<and> (\<forall>ev\<in>set evs. \<not> is_handshake ev) \<and> evs \<noteq> [] \<and>
       (r = Returns None \<longleftrightarrow> last evs = Read EOF)"
proof (induction env st arbitrary: r st' rule: loop.induct)
  case (1 env st)
  obtain r1 st1 where ro: "runOnce env st = (r1, st1)" by (cases "runOnce env st")
  from runOnce_io [OF ro] obtain x outs where
    step: "io st1 = io st @ Read x # outs" "\<forall>ev\<in>set outs. is_reply ev"
      "x = EOF \<longrightarrow> outs = []" "r1 = Returns (False, None) \<longleftrightarrow> x = EOF"
    by blast
  show ?case
  proof (cases "r1 = Returns (True, None)")
    case True
    with ro "1.prems" have rec: "loop env st1 = (r, st')"
      by (simp add: loop.simps [of env st])
    have "\<not> \<not> True" by simp
    from "1.IH" [OF ro [symmetric] True refl refl this rec]
    obtain evs where
      evs: "io st' = io st1 @ evs" "\<forall>ev\<in>set evs. \<not> is_handshake ev" "evs \<noteq> []"
        "r = Returns None \<longleftrightarrow> last evs = Read EOF"
      by auto
    show ?thesis
      using evs step by (intro exI [of _ "Read x # outs @ evs"]) (auto dest: is_reply_cases)
  next
    case False
    with ro "1.prems" have fin: "st' = st1"
      "r = (case r1 of Panics \<Rightarrow> Panics | Returns (c, e) \<Rightarrow> Returns e)"
      by (auto simp: loop.simps [of env st] split: go.splits option.splits if_splits)
    have "r = Returns None \<longleftrightarrow> last (Read x # outs) = Read EOF"
    proof (cases "x = EOF")
      case True
      with step fin show ?thesis by auto
    next
      case nE: False
      have "last (Read x # outs) \<noteq> Read EOF"
      proof (cases outs rule: rev_cases)
        case Nil
        with nE show ?thesis by simp
      next
        case (snoc ys y)
        with step(2) have "is_reply y" by simp
        moreover have "last (Read x # outs) = y" using snoc by simp
        ultimately show ?thesis by (auto dest: is_reply_cases)
      qed
      moreover have "r \<noteq> Returns None"
        using nE step(4) False fin by (auto split: go.splits option.splits)
      ultimately show ?thesis by simp
    qed
    with step fin show ?thesis
      by (intro exI [of _ "Read x # outs"]) (auto dest: is_reply_cases)
  qed
qed

section \<open>The seed handed to the factory\<close>




section \<open>The registry\<close>



text \<open>
  Claim C9. A \<open>DROP_SOLVER_CAST\<close> returns no error and prints nothing; the registry
  afterwards is the old one without the entry of its \<open>solver_id\<close>, and when there was no
  such entry the state is left exactly as it was.
\<close>

theorem drop_removes_entry_or_nothing:
  assumes "UnmarshalDropSolverCast env input = Inr (DropSolverCast i)"
  shows "handleDropSolverCast env input st
           = (Returns None, st\<lparr>solvers := (solvers st)(i := None)\<rparr>)
         \<and> (solvers st i = None \<longrightarrow> handleDropSolverCast env input st = (Returns None, st))"
proof -
  have "solvers st i = None \<Longrightarrow> st\<lparr>solvers := (solvers st)(i := None)\<rparr> = st"
    by (simp add: fun_upd_idem)
  with assms show ?thesis
    by (simp add: handleDropSolverCast_def)
qed

text \<open>Dropping id 1 from an empty registry, and from one that holds it.\<close>

theorem drop_removes_entry_or_nothing_witness:
  "UnmarshalDropSolverCast demo_env ''drop-1'' = Inr (DropSolverCast 1)
   \<and> solvers (NewSolverRunner [] [] :: (nat, int list, string, unit, unit) state) 1 = None
   \<and> handleDropSolverCast demo_env ''drop-1'' (NewSolverRunner [] [])
       = (Returns None, NewSolverRunner [] [])
   \<and> solvers demo_state 1 = Some (Some 1)
   \<and> fst (handleDropSolverCast demo_env ''drop-1'' demo_state) = Returns None
   \<and> solvers (snd (handleDropSolverCast demo_env ''drop-1'' demo_state)) 1 = None
   \<and> solvers (snd (handleDropSolverCast demo_env ''drop-1'' demo_state)) 4 = Some (Some 0)
   \<and> io (snd (handleDropSolverCast demo_env ''drop-1'' demo_state)) = []"
proof -
  have dec: "UnmarshalDropSolverCast demo_env ''drop-1'' = Inr (DropSolverCast 1)"
    by (simp add: demo_env_def)
  have absent: "solvers (NewSolverRunner [] [] :: (nat, int list, string, unit, unit) state) 1 = None"
    by (simp add: NewSolverRunner_def)
  from drop_removes_entry_or_nothing [OF dec, of "NewSolverRunner [] []"] absent
  have noop: "handleDropSolverCast demo_env ''drop-1'' (NewSolverRunner [] [])
      = (Returns None, NewSolverRunner [] [])"
    by blast
  note live = drop_removes_entry_or_nothing [OF dec, of demo_state, THEN conjunct1]
  have "solvers demo_state 1 = Some (Some 1)"
    and "fst (handleDropSolverCast demo_env ''drop-1'' demo_state) = Returns None"
    and "solvers (snd (handleDropSolverCast demo_env ''drop-1'' demo_state)) 1 = None"
    and "solvers (snd (handleDropSolverCast demo_env ''drop-1'' demo_state)) 4 = Some (Some 0)"
    and "io (snd (handleDropSolverCast demo_env ''drop-1'' demo_state)) = []"
    unfolding live by (simp_all add: demo_state_def)
  with dec absent noop show ?thesis by blast
qed

text \<open>
  Claim C8. When the \<open>Ask\<close> or \<open>Tell\<close> of a live solver fails, \<open>handleAskCall\<close> and
  \<open>handleTellCall\<close> return that error; nothing is printed, and the registry is the same map
  as before: the failing solver's entry stays and no other entry changes.
\<close>

theorem ask_tell_failure_keeps_registry:
  "(UnmarshalAskCall env ask_input = Inr (AskCall i n) \<and> solvers st i = Some (Some solver) \<and>
    Ask env solver \<lparr>NextId = n\<rparr> (world st) = (Inl err, idg', w) \<longrightarrow>
      handleAskCall env ask_input st = (Returns (Some (External err)), st\<lparr>world := w\<rparr>) \<and>
      solvers (snd (handleAskCall env ask_input st)) = solvers st)
   \<and> (UnmarshalTellCall env tell_input = Inr (TellCall j trial) \<and>
      solvers st j = Some (Some solver') \<and> Tell env solver' trial (world st) = (Some err', w') \<longrightarrow>
      handleTellCall env tell_input st = (Returns (Some (External err')), st\<lparr>world := w'\<rparr>) \<and>
      solvers (snd (handleTellCall env tell_input st)) = solvers st)"
  by (simp add: handleAskCall_def handleTellCall_def solvers_index_def)

text \<open>Solver 4 of the example fails every \<open>Ask\<close>; solver 1 fails \<open>Tell\<close> on a rejected trial.\<close>

theorem ask_tell_failure_keeps_registry_witness:
  "UnmarshalAskCall demo_env ''ask-4'' = Inr (AskCall 4 100)
   \<and> solvers demo_state 4 = Some (Some 0)
   \<and> Ask demo_env 0 \<lparr>NextId = 100\<rparr> (world demo_state)
       = (Inl ''search space exhausted'', \<lparr>NextId = 100\<rparr>, [])
   \<and> handleAskCall demo_env ''ask-4'' demo_state
       = (Returns (Some (External ''search space exhausted'')), demo_state)
   \<and> UnmarshalTellCall demo_env ''tell-1-rejected'' = Inr (TellCall 1 False)
   \<and> solvers demo_state 1 = Some (Some 1)
   \<and> Tell demo_env 1 False (world demo_state) = (Some ''trial rejected'', [])
   \<and> handleTellCall demo_env ''tell-1-rejected'' demo_state
       = (Returns (Some (External ''trial rejected'')), demo_state)"
proof -
  have a1: "UnmarshalAskCall demo_env ''ask-4'' = Inr (AskCall 4 100)"
    and a3: "Ask demo_env 0 \<lparr>NextId = 100\<rparr> (world demo_state)
       = (Inl ''search space exhausted'', \<lparr>NextId = 100\<rparr>, [])"
    and t1: "UnmarshalTellCall demo_env ''tell-1-rejected'' = Inr (TellCall 1 False)"
    and t3: "Tell demo_env 1 False (world demo_state) = (Some ''trial rejected'', [])"
    by (simp_all add: demo_env_def demo_state_def)
  have a2: "solvers demo_state 4 = Some (Some 0)" and t2: "solvers demo_state 1 = Some (Some 1)"
    by (simp_all add: demo_state_def)
  have same: "demo_state\<lparr>world := []\<rparr> = demo_state"
    by (simp add: demo_state_def)
  from ask_tell_failure_keeps_registry [of demo_env "''ask-4''" 4 100 demo_state 0
      "''search space exhausted''" "\<lparr>NextId = 100\<rparr>" "[]" "''tell-1-rejected''" 1 False 1
      "''trial rejected''" "[]"]
    a1 a2 a3 t1 t2 t3 same
  show ?thesis by simp
qed

section \<open>The dispatcher\<close>

lemma written_append: "written (xs @ ys) = written xs @ written ys"
  by (induction xs rule: written.induct) simp_all

lemma castSolverSpec_cases:
  "castSolverSpec env st =
     (case Specification env (world st) of
        (Inl err, w) \<Rightarrow> (Some (External err), st\<lparr>world := w\<rparr>)
      | (Inr spec, w) \<Rightarrow>
          (case Marshal env (SOLVER_SPEC_CAST spec) of
             Inl err \<Rightarrow> (Some (External err), st\<lparr>world := w\<rparr>)
           | Inr b \<Rightarrow> (None, st\<lparr>world := w, io := io st @ [Output (SOLVER_SPEC_CAST spec) b]\<rparr>)))"
  by (simp add: castSolverSpec_def sendMessage_def split: prod.splits sum.splits)

text \<open>
  Claim C4, as amended. When \<open>Factory.Specification\<close> succeeds and the handshake can be
  encoded, the first thing a run does to the outside is to print the \<open>SOLVER_SPEC_CAST\<close>
  line, before any call of \<open>readLine\<close>, and nothing printed later is a handshake, however
  many lines follow. When \<open>Specification\<close> or the encoding fails, \<open>Run\<close> returns that error
  with nothing printed and nothing read.
\<close>

theorem handshake_first_and_once:
  fixes env :: "('h, 'w, 'e, 'p, 'a, 'et, 'v, 'c) env"
  shows "(Specification env w = (Inr spec, w') \<and> Marshal env (SOLVER_SPEC_CAST spec) = Inr bytes \<longrightarrow>
      (\<exists>rest. io (snd (Run env (NewSolverRunner w input)))
                 = Output (SOLVER_SPEC_CAST spec) bytes # rest
               \<and> filter is_handshake rest = []))
   \<and> (Specification env w = (Inl err, w') \<or>
       Specification env w = (Inr spec, w') \<and> Marshal env (SOLVER_SPEC_CAST spec) = Inl err \<longrightarrow>
        Run env (NewSolverRunner w input)
          = (Returns (Some (External err)), (NewSolverRunner w input)\<lparr>world := w'\<rparr>))"
proof (intro conjI impI)
  assume ok: "Specification env w = (Inr spec, w') \<and> Marshal env (SOLVER_SPEC_CAST spec) = Inr bytes"
  let ?st1 = "\<lparr>solvers = Map.empty, world = w', stdin = input,
                io = [Output (SOLVER_SPEC_CAST spec) bytes]\<rparr>
              :: ('h, 'w, 'e, 'c, 'a) state"
  from ok have run: "Run env (NewSolverRunner w input) = loop env ?st1"
    by (simp add: Run_def castSolverSpec_cases NewSolverRunner_def)
  obtain r st' where lp: "loop env ?st1 = (r, st')" by (cases "loop env ?st1")
  from loop_io [OF lp] obtain evs where
    "io st' = io ?st1 @ evs" "\<forall>ev\<in>set evs. \<not> is_handshake ev"
    by blast
  then have "io st' = Output (SOLVER_SPEC_CAST spec) bytes # evs \<and> filter is_handshake evs = []"
    by (simp add: filter_empty_conv)
  with run lp show "\<exists>rest. io (snd (Run env (NewSolverRunner w input)))
                 = Output (SOLVER_SPEC_CAST spec) bytes # rest
               \<and> filter is_handshake rest = []"
    by auto
next
  assume "Specification env w = (Inl err, w') \<or>
       Specification env w = (Inr spec, w') \<and> Marshal env (SOLVER_SPEC_CAST spec) = Inl err"
  then show "Run env (NewSolverRunner w input)
          = (Returns (Some (External err)), (NewSolverRunner w input)\<lparr>world := w'\<rparr>)"
    by (auto simp: Run_def castSolverSpec_cases NewSolverRunner_def)
qed

text \<open>
  A run over three requests starts with the handshake; with the factory that reports no
  specification, \<open>Run\<close> fails at once and leaves the input line unread.
\<close>

theorem handshake_first_and_once_witness:
  "Specification demo_env [] = (Inr (Some (NewSolverSpec () ''demo'')), [])
   \<and> Marshal demo_env (SOLVER_SPEC_CAST (Some (NewSolverSpec () ''demo''))) = Inr ''SOLVER_SPEC_CAST''
   \<and> (\<exists>rest. io (snd (Run demo_env (NewSolverRunner [] (map Inr [''create-1'', ''ask-1'', ''tell-1'']))))
          = Output (SOLVER_SPEC_CAST (Some (NewSolverSpec () ''demo''))) ''SOLVER_SPEC_CAST'' # rest
        \<and> filter is_handshake rest = [])
   \<and> written (io (snd (Run demo_env (NewSolverRunner [] (map Inr [''create-1'', ''ask-1'', ''tell-1''])))))
       = [''SOLVER_SPEC_CAST'', ''ASK_REPLY'', ''TELL_REPLY'']
   \<and> Specification silent_env [] = (Inl ''no specification'', [])
   \<and> Run silent_env (NewSolverRunner [] [Inr ''create-1''])
       = (Returns (Some (External ''no specification'')), NewSolverRunner [] [Inr ''create-1''])"
proof -
  have spec: "Specification demo_env [] = (Inr (Some (NewSolverSpec () ''demo'')), [])"
    and enc: "Marshal demo_env (SOLVER_SPEC_CAST (Some (NewSolverSpec () ''demo'')))
      = Inr ''SOLVER_SPEC_CAST''"
    by (simp_all add: demo_env_def)
  have nospec: "Specification silent_env [] = (Inl ''no specification'', [])"
    by (simp add: silent_env_def)
  from handshake_first_and_once [of demo_env "[]" "Some (NewSolverSpec () ''demo'')" "[]"
      "''SOLVER_SPEC_CAST''" "map Inr [''create-1'', ''ask-1'', ''tell-1'']", THEN conjunct1]
    spec enc
  have first: "\<exists>rest. io (snd (Run demo_env (NewSolverRunner [] (map Inr [''create-1'', ''ask-1'', ''tell-1'']))))
          = Output (SOLVER_SPEC_CAST (Some (NewSolverSpec () ''demo''))) ''SOLVER_SPEC_CAST'' # rest
        \<and> filter is_handshake rest = []"
    by blast
  have out: "written (io (snd (Run demo_env (NewSolverRunner [] (map Inr [''create-1'', ''ask-1'', ''tell-1''])))))
       = [''SOLVER_SPEC_CAST'', ''ASK_REPLY'', ''TELL_REPLY'']"
    by (simp add: demo_simps)
  from handshake_first_and_once [of silent_env "[]" _ "[]" _ "[Inr ''create-1'']"
      "''no specification''", THEN conjunct2] nospec
  have fail: "Run silent_env (NewSolverRunner [] [Inr ''create-1''])
       = (Returns (Some (External ''no specification'')), NewSolverRunner [] [Inr ''create-1''])"
    by (simp add: NewSolverRunner_def)
  from spec enc first out nospec fail show ?thesis by blast
qed

text \<open>
  Claim C4 as stated ("for every run ... emitted exactly once") fails for a factory whose
  \<open>Specification\<close> returns an error: the run ends with that error and has printed nothing.
\<close>

theorem handshake_counterexample:
  "fst (Run silent_env (NewSolverRunner [] [Inr ''create-1'']))
     = Returns (Some (External ''no specification''))
   \<and> io (snd (Run silent_env (NewSolverRunner [] [Inr ''create-1'']))) = []
   \<and> length (filter is_handshake (io (snd (Run silent_env (NewSolverRunner [] [Inr ''create-1'']))))) = 0"
  by (simp add: silent_env_def demo_simps)

text \<open>
  Claim C5. A line that decodes to an object whose \<open>"type"\<close> is none of the four known
  discriminants (absent and non-string values included) ends the loop at once:
  \<open>Run\<close> returns the error \<open>unknown message type\<close> carrying that value, the lines after it
  stay unread, and nothing is printed.
\<close>

theorem unknown_type_ends_run:
  assumes "stdin st = Inr l # rest"
    and "UnmarshalMap env l = Inr m"
    and "map_index m ''type'' \<notin> {JString ''CREATE_SOLVER_CAST'', JString ''DROP_SOLVER_CAST'',
           JString ''ASK_CALL'', JString ''TELL_CALL''}"
  shows "loop env st =
           (Returns (Some (UnknownMessageType (map_index m ''type''))),
            st\<lparr>stdin := rest, io := io st @ [Read (Line l)]\<rparr>)"
proof -
  from assms have "runOnce env st =
      (Returns (False, Some (UnknownMessageType (map_index m ''type''))),
       st\<lparr>stdin := rest, io := io st @ [Read (Line l)]\<rparr>)"
    by (simp add: runOnce_def readLine_def Let_def)
  then show ?thesis
    by (simp add: loop.simps [of env st])
qed

text \<open>The line \<open>bogus\<close> carries the type \<open>BOGUS\<close>; the line after it is never read.\<close>

theorem unknown_type_ends_run_witness:
  "stdin (NewSolverRunner [] [Inr ''bogus'', Inr ''create-1'']
      :: (nat, int list, string, unit, unit) state) = [Inr ''bogus'', Inr ''create-1'']
   \<and> UnmarshalMap demo_env ''bogus'' = Inr [''type'' \<mapsto> JString ''BOGUS'']
   \<and> map_index [''type'' \<mapsto> JString ''BOGUS''] ''type'' = (JString ''BOGUS'' :: unit jvalue)
   \<and> loop demo_env (NewSolverRunner [] [Inr ''bogus'', Inr ''create-1'']) =
       (Returns (Some (UnknownMessageType (JString ''BOGUS''))),
        \<lparr>solvers = Map.empty, world = [], stdin = [Inr ''create-1''],
         io = [Read (Line ''bogus'')]\<rparr>)"
proof -
  have inp: "stdin (NewSolverRunner [] [Inr ''bogus'', Inr ''create-1'']
      :: (nat, int list, string, unit, unit) state) = [Inr ''bogus'', Inr ''create-1'']"
    by (simp add: NewSolverRunner_def)
  have dec: "UnmarshalMap demo_env ''bogus'' = Inr [''type'' \<mapsto> JString ''BOGUS'']"
    by (simp add: demo_env_def)
  have ty: "map_index [''type'' \<mapsto> JString ''BOGUS''] ''type'' = (JString ''BOGUS'' :: unit jvalue)"
    by (simp add: map_index_def)
  have other: "map_index [''type'' \<mapsto> (JString ''BOGUS'' :: unit jvalue)] ''type''
      \<notin> {JString ''CREATE_SOLVER_CAST'', JString ''DROP_SOLVER_CAST'',
           JString ''ASK_CALL'', JString ''TELL_CALL''}"
    by (simp add: ty)
  from unknown_type_ends_run [OF inp dec other] inp dec ty show ?thesis
    by (simp add: NewSolverRunner_def)
qed

lemma loop_EOF:
  "stdin st = [] \<Longrightarrow> loop env st = (Returns None, st\<lparr>io := io st @ [Read EOF]\<rparr>)"
  by (simp add: loop.simps [of env st] runOnce_EOF)

lemma Run_stopped_iff:
  fixes env :: "('h, 'w, 'e, 'p, 'a, 'et, 'v, 'c) env"
  shows "fst (Run env (NewSolverRunner w input)) = Returns None \<longleftrightarrow>
     (\<exists>evs. io (snd (Run env (NewSolverRunner w input))) = evs @ [Read EOF])"
proof -
  let ?st0 = "(NewSolverRunner w input :: ('h, 'w, 'e, 'c, 'a) state)\<lparr>solvers := Map.empty\<rparr>"
  obtain c st1 where cast: "castSolverSpec env ?st0 = (c, st1)"
    by (cases "castSolverSpec env ?st0")
  show ?thesis
  proof (cases c)
    case (Some err)
    with cast have "io st1 = []"
      by (auto simp: castSolverSpec_cases NewSolverRunner_def split: prod.splits sum.splits)
    with cast Some show ?thesis
      by (simp add: Run_def)
  next
    case None
    obtain r st' where lp: "loop env st1 = (r, st')" by (cases "loop env st1")
    from loop_io [OF lp] obtain evs where
      evs: "io st' = io st1 @ evs" "evs \<noteq> []" "r = Returns None \<longleftrightarrow> last evs = Read EOF"
      by blast
    from evs(2) obtain ys y where snoc: "evs = ys @ [y]"
      by (cases evs rule: rev_cases) auto
    have "(\<exists>zs. io st' = zs @ [Read EOF]) \<longleftrightarrow> last evs = Read EOF"
      using evs(1) snoc by auto
    with cast None lp evs(3) show ?thesis
      by (simp add: Run_def)
  qed
qed

text \<open>
  Claim C6. A run from a fresh runner returns no error exactly when the last thing it did
  was a \<open>readLine\<close> that met end of stream; and a round that meets end of stream returns
  \<open>nil\<close> having printed nothing.
\<close>

theorem stopped_only_at_end_of_stream:
  "(fst (Run env (NewSolverRunner w input)) = Returns None \<longleftrightarrow>
      (\<exists>evs. io (snd (Run env (NewSolverRunner w input))) = evs @ [Read EOF]))
   \<and> (stdin st = [] \<longrightarrow> loop env st = (Returns None, st\<lparr>io := io st @ [Read EOF]\<rparr>))"
  using Run_stopped_iff [of env w input] loop_EOF [of st env] by blast

text \<open>
  A run that reaches end of stream, a run that fails on an unknown type, and the round at
  end of stream itself.
\<close>

theorem stopped_only_at_end_of_stream_witness:
  "stdin (demo_state\<lparr>io := [Read (Line ''drop-1'')]\<rparr>) = []
   \<and> loop demo_env (demo_state\<lparr>io := [Read (Line ''drop-1'')]\<rparr>)
       = (Returns None, demo_state\<lparr>io := [Read (Line ''drop-1''), Read EOF]\<rparr>)
   \<and> fst (demo_run [''create-1'', ''drop-1'']) = Returns None
   \<and> (\<exists>evs. io (snd (demo_run [''create-1'', ''drop-1''])) = evs @ [Read EOF])
   \<and> fst (demo_run [''bogus'']) \<noteq> Returns None
   \<and> (\<nexists>evs. io (snd (demo_run [''bogus''])) = evs @ [Read EOF])"
proof -
  let ?st = "demo_state\<lparr>io := [Read (Line ''drop-1'')]\<rparr>"
  have empty: "stdin ?st = []"
    by (simp add: demo_state_def)
  from stopped_only_at_end_of_stream [of demo_env "[]" "map Inr [''create-1'', ''drop-1'']" ?st,
      THEN conjunct2] empty
  have lp: "loop demo_env ?st = (Returns None, demo_state\<lparr>io := [Read (Line ''drop-1''), Read EOF]\<rparr>)"
    by simp
  have ok: "fst (demo_run [''create-1'', ''drop-1'']) = Returns None"
    by (simp add: demo_simps)
  with stopped_only_at_end_of_stream [of demo_env "[]" "map Inr [''create-1'', ''drop-1'']" ?st,
      THEN conjunct1]
  have tr: "\<exists>evs. io (snd (demo_run [''create-1'', ''drop-1''])) = evs @ [Read EOF]"
    by (simp add: demo_run_def)
  have bad: "fst (demo_run [''bogus'']) \<noteq> Returns None"
    by (simp add: demo_simps)
  with stopped_only_at_end_of_stream [of demo_env "[]" "map Inr [''bogus'']" ?st,
      THEN conjunct1]
  have nt: "\<nexists>evs. io (snd (demo_run [''bogus''])) = evs @ [Read EOF]"
    by (simp add: demo_run_def)
  from empty lp ok tr bad nt show ?thesis by blast
qed

text \<open>
  Claim C2, as amended. When \<open>Factory.CreateSolver\<close> fails while a \<open>CREATE_SOLVER_CAST\<close> is
  handled, the registry is left as it was and nothing is printed, and the failure ends the
  run: \<open>Run\<close> returns that error and no later line is read.
\<close>

theorem create_failure_ends_run:
  assumes "stdin st = Inr l # rest"
    and "UnmarshalMap env l = Inr m"
    and "map_index m ''type'' = JString ''CREATE_SOLVER_CAST''"
    and "UnmarshalCreateSolverCast env l = Inr (CreateSolverCast i s p)"
    and "CreateSolver env (int64 s) p (world st) = (Inl err, w)"
  shows "loop env st =
           (Returns (Some (External err)),
            st\<lparr>stdin := rest, io := io st @ [Read (Line l)], world := w\<rparr>)
         \<and> solvers (snd (loop env st)) = solvers st
         \<and> written (io (snd (loop env st))) = written (io st)"
proof -
  from assms have "runOnce env st =
      (Returns (True, Some (External err)),
       st\<lparr>stdin := rest, io := io st @ [Read (Line l)], world := w\<rparr>)"
    by (simp add: runOnce_def readLine_def Let_def handleCreateSolverCast_def return_true_def)
  then have "loop env st =
           (Returns (Some (External err)),
            st\<lparr>stdin := rest, io := io st @ [Read (Line l)], world := w\<rparr>)"
    by (simp add: loop.simps [of env st])
  then show ?thesis by (simp add: written_append)
qed

text \<open>The factory of the example rejects the problem of id 2; the \<open>ask-1\<close> after it stays unread.\<close>

theorem create_failure_ends_run_witness:
  "stdin (demo_state\<lparr>stdin := [Inr ''create-2-unsupported'', Inr ''ask-1'']\<rparr>)
     = [Inr ''create-2-unsupported'', Inr ''ask-1'']
   \<and> UnmarshalMap demo_env ''create-2-unsupported'' = Inr [''type'' \<mapsto> JString ''CREATE_SOLVER_CAST'']
   \<and> map_index [''type'' \<mapsto> JString ''CREATE_SOLVER_CAST''] ''type''
       = (JString ''CREATE_SOLVER_CAST'' :: unit jvalue)
   \<and> UnmarshalCreateSolverCast demo_env ''create-2-unsupported'' = Inr (CreateSolverCast 2 5 None)
   \<and> CreateSolver demo_env (int64 5) None [] = (Inl ''unsupported problem'', [5])
   \<and> loop demo_env (demo_state\<lparr>stdin := [Inr ''create-2-unsupported'', Inr ''ask-1'']\<rparr>) =
       (Returns (Some (External ''unsupported problem'')),
        demo_state\<lparr>stdin := [Inr ''ask-1''], io := [Read (Line ''create-2-unsupported'')],
          world := [5]\<rparr>)"
proof -
  let ?st = "demo_state\<lparr>stdin := [Inr ''create-2-unsupported'', Inr ''ask-1'']\<rparr>"
  have inp: "stdin ?st = [Inr ''create-2-unsupported'', Inr ''ask-1'']"
    by simp
  have gen: "UnmarshalMap demo_env ''create-2-unsupported''
      = Inr [''type'' \<mapsto> JString ''CREATE_SOLVER_CAST'']"
    and dec: "UnmarshalCreateSolverCast demo_env ''create-2-unsupported''
      = Inr (CreateSolverCast 2 5 None)"
    and fac: "CreateSolver demo_env (int64 5) None (world ?st) = (Inl ''unsupported problem'', [5])"
    by (simp_all add: demo_env_def demo_state_def int64_def)
  have ty: "map_index [''type'' \<mapsto> JString ''CREATE_SOLVER_CAST''] ''type''
       = (JString ''CREATE_SOLVER_CAST'' :: unit jvalue)"
    by (simp add: map_index_def)
  from create_failure_ends_run [OF inp gen ty dec fac, THEN conjunct1] inp gen ty dec fac
  show ?thesis
    by (simp add: demo_state_def)
qed

text \<open>
  Claim C2 as stated ("aborts only the triggering create message ... subsequent messages
  are unaffected") fails: after the failed create the run returns the error, the
  \<open>ASK_CALL\<close> for the live solver 1 is never read and gets no reply, while without the
  failed create it is answered.
\<close>

theorem create_failure_counterexample:
  "fst (demo_run [''create-1'', ''create-2-unsupported'', ''ask-1''])
     = Returns (Some (External ''unsupported problem''))
   \<and> stdin (snd (demo_run [''create-1'', ''create-2-unsupported'', ''ask-1''])) = [Inr ''ask-1'']
   \<and> written (io (snd (demo_run [''create-1'', ''create-2-unsupported'', ''ask-1''])))
       = [''SOLVER_SPEC_CAST'']
   \<and> written (io (snd (demo_run [''create-1'', ''ask-1''])))
       = [''SOLVER_SPEC_CAST'', ''ASK_REPLY'']"
  by (simp add: demo_simps)

section \<open>The trial id counter\<close>






section \<open>A request for a solver that is not in the registry\<close>

lemma ask_without_entry_panics:
  "UnmarshalAskCall env input = Inr (AskCall i n) \<Longrightarrow> solvers st i = None \<Longrightarrow>
     handleAskCall env input st = (Panics, st)"
  by (simp add: handleAskCall_def solvers_index_def)

lemma tell_without_entry_panics:
  "UnmarshalTellCall env input = Inr (TellCall i trial) \<Longrightarrow> solvers st i = None \<Longrightarrow>
     handleTellCall env input st = (Panics, st)"
  by (simp add: handleTellCall_def solvers_index_def)

text \<open>
  Claim C1, evaluated on the code. After \<open>CREATE_SOLVER_CAST\<close> and \<open>DROP_SOLVER_CAST\<close> of
  id 1, an \<open>ASK_CALL\<close> or a \<open>TELL_CALL\<close> for id 1 finds the nil \<open>Solver\<close> and calls a method
  on it: the run panics. \<open>Run\<close> returns no error, only the handshake has been printed, and
  the lines after the request stay unread.
\<close>

theorem ask_tell_after_drop_panic:
  "fst (demo_run [''create-1'', ''drop-1'', ''ask-1'']) = Panics
   \<and> fst (demo_run [''create-1'', ''drop-1'', ''tell-1'']) = Panics
   \<and> written (io (snd (demo_run [''create-1'', ''drop-1'', ''ask-1'']))) = [''SOLVER_SPEC_CAST'']
   \<and> written (io (snd (demo_run [''create-1'', ''drop-1'', ''tell-1'']))) = [''SOLVER_SPEC_CAST'']
   \<and> stdin (snd (demo_run [''create-1'', ''drop-1'', ''ask-1'', ''create-1''])) = [Inr ''create-1'']"
  by (simp add: demo_simps)

end
